theory Spec2Isabelle
  imports Main
begin

section \<open>The GVK parser of the field manager (gvkparser.go)\<close>

text \<open>
  The development follows \<^verbatim>\<open>pkg/endpoints/handlers/fieldmanager/internal/gvkparser.go\<close>.
  Go slices are lists (a \<^verbatim>\<open>nil\<close> slice and an empty one are both \<open>[]\<close>), Go maps are
  partial functions (or association lists where they occur inside decoded values), a
  \<^verbatim>\<open>nil\<close> result is \<open>None\<close>, and the \<^verbatim>\<open>panic\<close> of the constructor is a result of
  its own, apart from the returned error.
\<close>

subsection \<open>Data\<close>

text \<open>\<^verbatim>\<open>schema.GroupVersionKind\<close>: three strings, compared by value when used as a map key.\<close>

record GroupVersionKind =
  Group :: string
  Version :: string
  Kind :: string

text \<open>
  A value of Go's empty interface \<^verbatim>\<open>interface{}\<close>, as the decoded extensions hold it: the
  dynamic type is the constructor. \<open>IMapII\<close> is a \<^verbatim>\<open>map[interface{}]interface{}\<close> and
  \<open>IMapSI\<close> a \<^verbatim>\<open>map[string]interface{}\<close>, two different dynamic types; both are association
  lists read with \<open>map_of\<close>. \<open>IOther\<close> stands for a value of any other dynamic type.
\<close>

datatype iface =
    INil
  | IString string
  | IBool bool
  | IInt int
  | ISlice "iface list"
  | IMapII "(iface \<times> iface) list"
  | IMapSI "(string \<times> iface) list"
  | IOther string

text \<open>\<^verbatim>\<open>proto.Schema\<close>: of a model definition the code reads only \<^verbatim>\<open>GetExtensions()\<close>.\<close>

record proto_Schema =
  GetExtensions :: "string \<rightharpoonup> iface"

text \<open>\<^verbatim>\<open>proto.Models\<close>: the catalog; \<^verbatim>\<open>LookupModel\<close> returns \<^verbatim>\<open>nil\<close> (\<open>None\<close>) for an unknown name.\<close>

record Models =
  ListModels :: "string list"
  LookupModel :: "string \<Rightarrow> proto_Schema option"

text \<open>
  \<^verbatim>\<open>smdschema.TypeDef\<close> and \<^verbatim>\<open>smdschema.Schema\<close>. The \<^verbatim>\<open>Atom\<close> type belongs to the
  structured-merge-diff library; it is the type parameter \<open>'atom\<close>, and the literal
  \<^verbatim>\<open>smdschema.Atom{Untyped: &smdschema.Untyped{}}\<close> is the parameter \<open>untyped\<close> of the patcher.
\<close>

record 'atom TypeDef =
  Name :: string
  Atom :: 'atom

record 'atom smd_Schema =
  Types :: "'atom TypeDef list"

text \<open>\<^verbatim>\<open>typed.Parser\<close> and the \<^verbatim>\<open>gvkParser\<close> struct.\<close>

record 'atom Parser =
  Schema :: "'atom smd_Schema"

record 'atom gvkParser =
  gvks :: "GroupVersionKind \<rightharpoonup> string"
  parser :: "'atom Parser"

text \<open>A call either returns or panics with a message.\<close>

datatype 'a outcome = Return 'a | Panic string

subsection \<open>Constants\<close>

definition groupVersionKindExtensionKey :: string where
  "groupVersionKindExtensionKey = ''x-kubernetes-group-version-kind''"

definition rawExtensionName :: string where
  "rawExtensionName = ''io.k8s.apimachinery.pkg.runtime.RawExtension''"

subsection \<open>Type assertions and map indexing of Go\<close>

text \<open>The comma-ok assertion \<^verbatim>\<open>v, ok := x.([]interface{})\<close>.\<close>

fun assertSlice :: "iface \<Rightarrow> iface list option" where
  "assertSlice (ISlice xs) = Some xs"
| "assertSlice _ = None"

text \<open>The comma-ok assertion \<^verbatim>\<open>v, ok := x.(map[interface{}]interface{})\<close>.\<close>

fun assertMapII :: "iface \<Rightarrow> (iface \<times> iface) list option" where
  "assertMapII (IMapII m) = Some m"
| "assertMapII _ = None"

text \<open>The comma-ok assertion \<^verbatim>\<open>v, ok := x.(string)\<close>; it fails on the nil interface.\<close>

fun assertString :: "iface \<Rightarrow> string option" where
  "assertString (IString s) = Some s"
| "assertString _ = None"

text \<open>\<^verbatim>\<open>m[k]\<close> on a \<^verbatim>\<open>map[interface{}]interface{}\<close>: the nil interface when the key is absent.\<close>

definition mapIndex :: "(iface \<times> iface) list \<Rightarrow> iface \<Rightarrow> iface" where
  "mapIndex m k = (case map_of m k of None \<Rightarrow> INil | Some v \<Rightarrow> v)"

subsection \<open>parseGroupVersionKind\<close>

text \<open>
  The \<^verbatim>\<open>for _, gvk := range gvkList\<close> loop (lines 90 to 115): the second argument is
  \<^verbatim>\<open>gvkListResult\<close>, every \<^verbatim>\<open>continue\<close> goes on with the rest and the result
  unchanged, and a decoded triple is appended at the end.
\<close>

fun parseGroupVersionKind_loop ::
  "iface list \<Rightarrow> GroupVersionKind list \<Rightarrow> GroupVersionKind list" where
  "parseGroupVersionKind_loop [] gvkListResult = gvkListResult"
| "parseGroupVersionKind_loop (gvk # rest) gvkListResult =
     (case assertMapII gvk of
        None \<Rightarrow> parseGroupVersionKind_loop rest gvkListResult
      | Some gvkMap \<Rightarrow>
          (case assertString (mapIndex gvkMap (IString ''group'')) of
             None \<Rightarrow> parseGroupVersionKind_loop rest gvkListResult
           | Some grp \<Rightarrow>
               (case assertString (mapIndex gvkMap (IString ''version'')) of
                  None \<Rightarrow> parseGroupVersionKind_loop rest gvkListResult
                | Some version \<Rightarrow>
                    (case assertString (mapIndex gvkMap (IString ''kind'')) of
                       None \<Rightarrow> parseGroupVersionKind_loop rest gvkListResult
                     | Some kind \<Rightarrow>
                         parseGroupVersionKind_loop rest
                           (gvkListResult @
                              [\<lparr>Group = grp, Version = version, Kind = kind\<rparr>])))))"

text \<open>
  The function (lines 73 to 118): the extension under the key, asserted to be a
  \<^verbatim>\<open>[]interface{}\<close>; an empty result when the key is absent or the assertion fails.
\<close>

definition parseGroupVersionKind :: "proto_Schema \<Rightarrow> GroupVersionKind list" where
  "parseGroupVersionKind s =
     (let extensions = GetExtensions s in
      case extensions groupVersionKindExtensionKey of
        None \<Rightarrow> []
      | Some gvkExtension \<Rightarrow>
          (case assertSlice gvkExtension of
             None \<Rightarrow> []
           | Some gvkList \<Rightarrow> parseGroupVersionKind_loop gvkList []))"

subsection \<open>makeRawExtensionUntyped\<close>

text \<open>
  The loop over \<^verbatim>\<open>s.Types\<close> (lines 125 to 133): \<^verbatim>\<open>t2 := t\<close> copies the entry, the
  entry named for the raw extension gets the untyped atom, and \<^verbatim>\<open>t2\<close> is appended to
  \<^verbatim>\<open>s2.Types\<close> (the last argument), which starts empty in the function (lines 123 to 135).
\<close>

fun makeRawExtensionUntyped_loop ::
  "'atom \<Rightarrow> 'atom TypeDef list \<Rightarrow> 'atom TypeDef list \<Rightarrow> 'atom TypeDef list" where
  "makeRawExtensionUntyped_loop untyped [] s2Types = s2Types"
| "makeRawExtensionUntyped_loop untyped (t # rest) s2Types =
     (let t2 = t;
          t2 = (if Name t2 = rawExtensionName then t2\<lparr>Atom := untyped\<rparr> else t2)
      in makeRawExtensionUntyped_loop untyped rest (s2Types @ [t2]))"

definition makeRawExtensionUntyped :: "'atom \<Rightarrow> 'atom smd_Schema \<Rightarrow> 'atom smd_Schema" where
  "makeRawExtensionUntyped untyped s =
     \<lparr>Types = makeRawExtensionUntyped_loop untyped (Types s) []\<rparr>"

subsection \<open>newGVKParser and Type\<close>

text \<open>
  The inner loop \<^verbatim>\<open>for _, gvk := range gvkList\<close> of the constructor (lines 63 to 67),
  on \<^verbatim>\<open>parser.gvks\<close>: a GVK is stored under the model's name when its kind is not empty.
\<close>

fun newGVKParser_gvkLoop ::
  "(GroupVersionKind \<rightharpoonup> string) \<Rightarrow> string \<Rightarrow> GroupVersionKind list
     \<Rightarrow> (GroupVersionKind \<rightharpoonup> string)" where
  "newGVKParser_gvkLoop idx modelName [] = idx"
| "newGVKParser_gvkLoop idx modelName (gvk # rest) =
     (if length (Kind gvk) > 0
      then newGVKParser_gvkLoop (idx(gvk \<mapsto> modelName)) modelName rest
      else newGVKParser_gvkLoop idx modelName rest)"

text \<open>
  The outer loop \<^verbatim>\<open>for _, modelName := range models.ListModels()\<close> (lines 57 to 68): a
  name that \<^verbatim>\<open>LookupModel\<close> does not resolve panics, a resolved model is parsed and indexed.
\<close>

fun newGVKParser_modelLoop ::
  "Models \<Rightarrow> (GroupVersionKind \<rightharpoonup> string) \<Rightarrow> string list
     \<Rightarrow> (GroupVersionKind \<rightharpoonup> string) outcome" where
  "newGVKParser_modelLoop models idx [] = Return idx"
| "newGVKParser_modelLoop models idx (modelName # rest) =
     (case LookupModel models modelName of
        None \<Rightarrow> Panic ''ListModels returns a model that can't be looked-up.''
      | Some model \<Rightarrow>
          newGVKParser_modelLoop models
            (newGVKParser_gvkLoop idx modelName (parseGroupVersionKind model)) rest)"

text \<open>
  \<^verbatim>\<open>newGVKParser\<close> (lines 47 to 70). The converter \<^verbatim>\<open>schemaconv.ToSchema\<close> belongs to
  kube-openapi and is the parameter \<open>ToSchema\<close>: called first (line 48), it returns an
  error (its message, \<open>Inl\<close>) or a schema (\<open>Inr\<close>), or it panics itself, and a panic of
  the callee is a panic of the constructor. The result of the constructor is
  \<open>Return (Inl e)\<close> for \<^verbatim>\<open>(nil, e)\<close>, \<open>Return (Inr p)\<close> for \<^verbatim>\<open>(&parser, nil)\<close>, or a panic.
\<close>

definition newGVKParser ::
  "(Models \<Rightarrow> (string + 'atom smd_Schema) outcome) \<Rightarrow> 'atom \<Rightarrow> Models
     \<Rightarrow> (string + 'atom gvkParser) outcome" where
  "newGVKParser ToSchema untyped models =
     (case ToSchema models of
        Panic msg \<Rightarrow> Panic msg
      | Return (Inl err) \<Rightarrow> Return (Inl (''failed to convert models to schema: '' @ err))
      | Return (Inr typeSchema) \<Rightarrow>
          (let typeSchema = makeRawExtensionUntyped untyped typeSchema;
               p = \<lparr>gvks = Map.empty, parser = \<lparr>Schema = typeSchema\<rparr>\<rparr>
           in case newGVKParser_modelLoop models (gvks p) (ListModels models) of
                Panic msg \<Rightarrow> Panic msg
              | Return idx \<Rightarrow> Return (Inr (p\<lparr>gvks := idx\<rparr>))))"

text \<open>
  \<^verbatim>\<open>(*gvkParser).Type\<close> (lines 39 to 45). The method \<^verbatim>\<open>typed.Parser.Type\<close> of the
  structured-merge-diff library is the parameter \<open>parserType\<close>; \<open>None\<close> is the \<^verbatim>\<open>nil\<close> the method returns for a
  GVK that is not in the index.
\<close>

definition Type ::
  "('atom Parser \<Rightarrow> string \<Rightarrow> 'pt) \<Rightarrow> 'atom gvkParser \<Rightarrow> GroupVersionKind \<Rightarrow> 'pt option" where
  "Type parserType p gvk =
     (case gvks p gvk of
        None \<Rightarrow> None
      | Some typeName \<Rightarrow> Some (parserType (parser p) typeName))"

subsection \<open>The decoded entry, in the words of the specification\<close>

text \<open>
  The specification's reading of one element of the GVK list, against which the loop of
  \<open>parseGroupVersionKind\<close> is compared. The element is interpreted as a mapping with
  string keys: a \<^verbatim>\<open>map[string]interface{}\<close> as it is, a \<^verbatim>\<open>map[interface{}]interface{}\<close>
  at its string keys; anything else is not a mapping. The group, version and kind are
  read as strings, and an element that is not a mapping, or has one of the three missing
  or not a string, decodes to nothing.
\<close>

definition spec_asMapping :: "iface \<Rightarrow> (string \<rightharpoonup> iface) option" where
  "spec_asMapping e =
     (case e of
        IMapSI kv \<Rightarrow> Some (map_of kv)
      | IMapII kv \<Rightarrow> Some (\<lambda>k. map_of kv (IString k))
      | _ \<Rightarrow> None)"

definition spec_stringField :: "(string \<rightharpoonup> iface) \<Rightarrow> string \<Rightarrow> string option" where
  "spec_stringField m f = (case m f of Some (IString s) \<Rightarrow> Some s | _ \<Rightarrow> None)"

definition spec_decodeEntry :: "iface \<Rightarrow> GroupVersionKind option" where
  "spec_decodeEntry e =
     (case spec_asMapping e of
        None \<Rightarrow> None
      | Some m \<Rightarrow>
          (case spec_stringField m ''group'' of
             None \<Rightarrow> None
           | Some g \<Rightarrow>
               (case spec_stringField m ''version'' of
                  None \<Rightarrow> None
                | Some v \<Rightarrow>
                    (case spec_stringField m ''kind'' of
                       None \<Rightarrow> None
                     | Some k \<Rightarrow> Some \<lparr>Group = g, Version = v, Kind = k\<rparr>))))"

text \<open>The elements whose dynamic type is \<^verbatim>\<open>map[string]interface{}\<close>.\<close>

fun isStringKeyed :: "iface \<Rightarrow> bool" where
  "isStringKeyed (IMapSI kv) = True"
| "isStringKeyed _ = False"

subsection \<open>Example catalogs and schemas\<close>

definition deploymentGVK :: GroupVersionKind where
  "deploymentGVK = \<lparr>Group = ''apps'', Version = ''v1'', Kind = ''Deployment''\<rparr>"

definition statefulSetGVK :: GroupVersionKind where
  "statefulSetGVK = \<lparr>Group = ''apps'', Version = ''v1'', Kind = ''StatefulSet''\<rparr>"

definition emptyKindGVK :: GroupVersionKind where
  "emptyKindGVK = \<lparr>Group = ''apps'', Version = ''v1'', Kind = []\<rparr>"

definition ex_entry_deployment :: iface where
  "ex_entry_deployment =
     IMapII [(IString ''group'', IString ''apps''), (IString ''version'', IString ''v1''),
             (IString ''kind'', IString ''Deployment'')]"

definition ex_entry_no_kind :: iface where
  "ex_entry_no_kind =
     IMapII [(IString ''group'', IString ''apps''), (IString ''version'', IString ''v1'')]"

definition ex_entry_int_version :: iface where
  "ex_entry_int_version =
     IMapII [(IString ''group'', IString ''apps''), (IString ''version'', IInt 1),
             (IString ''kind'', IString ''Deployment'')]"

definition ex_entry_empty_kind :: iface where
  "ex_entry_empty_kind =
     IMapII [(IString ''group'', IString ''apps''), (IString ''version'', IString ''v1''),
             (IString ''kind'', IString [])]"

definition ex_entry_string_keyed :: iface where
  "ex_entry_string_keyed =
     IMapSI [(''group'', IString ''apps''), (''version'', IString ''v1''),
             (''kind'', IString ''StatefulSet'')]"

definition ex_model_a :: proto_Schema where
  "ex_model_a = \<lparr>GetExtensions = [groupVersionKindExtensionKey \<mapsto>
     ISlice [IString ''junk'', ex_entry_no_kind, ex_entry_deployment, ex_entry_int_version,
             ex_entry_empty_kind]]\<rparr>"

definition ex_model_b :: proto_Schema where
  "ex_model_b = \<lparr>GetExtensions = [groupVersionKindExtensionKey \<mapsto>
     ISlice [ex_entry_string_keyed, ex_entry_deployment]]\<rparr>"

definition ex_model_b_dropped :: proto_Schema where
  "ex_model_b_dropped = \<lparr>GetExtensions = [groupVersionKindExtensionKey \<mapsto>
     ISlice [ex_entry_deployment]]\<rparr>"

definition ex_model_plain :: proto_Schema where
  "ex_model_plain =
     \<lparr>GetExtensions = [''x-kubernetes-patch-strategy'' \<mapsto> IString ''merge'']\<rparr>"

definition ex_model_scalar :: proto_Schema where
  "ex_model_scalar =
     \<lparr>GetExtensions = [groupVersionKindExtensionKey \<mapsto> ex_entry_deployment]\<rparr>"

definition ex_catalog :: Models where
  "ex_catalog = \<lparr>ListModels = [''a'', ''b'', ''c''],
     LookupModel = [''a'' \<mapsto> ex_model_a, ''b'' \<mapsto> ex_model_b, ''c'' \<mapsto> ex_model_plain]\<rparr>"


definition ex_schema :: "string smd_Schema" where
  "ex_schema = \<lparr>Types = [\<lparr>Name = ''a'', Atom = ''struct''\<rparr>,
     \<lparr>Name = rawExtensionName, Atom = ''map''\<rparr>, \<lparr>Name = ''b'', Atom = ''list''\<rparr>]\<rparr>"

definition ex_schema_plain :: "string smd_Schema" where
  "ex_schema_plain = \<lparr>Types = [\<lparr>Name = ''a'', Atom = ''struct''\<rparr>,
     \<lparr>Name = ''b'', Atom = ''list''\<rparr>]\<rparr>"

definition ex_ToSchema :: "Models \<Rightarrow> (string + string smd_Schema) outcome" where
  "ex_ToSchema models = Return (Inr ex_schema)"

definition ex_failing_ToSchema :: "Models \<Rightarrow> (string + string smd_Schema) outcome" where
  "ex_failing_ToSchema models = Return (Inl ''boom'')"


definition ex_parserType :: "string Parser \<Rightarrow> string \<Rightarrow> string smd_Schema \<times> string" where
  "ex_parserType p typeName = (Schema p, typeName)"

definition ex_parser :: "string gvkParser" where
  "ex_parser = \<lparr>gvks = [deploymentGVK \<mapsto> ''b''],
     parser = \<lparr>Schema = makeRawExtensionUntyped ''untyped'' ex_schema\<rparr>\<rparr>"

section \<open>Properties of the loops\<close>

lemma assertString_mapIndex:
  "assertString (mapIndex m (IString f)) = spec_stringField (\<lambda>k. map_of m (IString k)) f"
  by (simp add: mapIndex_def spec_stringField_def split: option.splits iface.splits)

lemma parseGroupVersionKind_loop_step:
  "parseGroupVersionKind_loop (x # xs) acc =
     parseGroupVersionKind_loop xs
       (acc @ (if isStringKeyed x then []
               else case spec_decodeEntry x of None \<Rightarrow> [] | Some g \<Rightarrow> [g]))"
  by (cases x)
     (simp_all add: spec_decodeEntry_def spec_asMapping_def assertString_mapIndex
        split: option.splits)

lemma parseGroupVersionKind_loop_map_filter:
  "parseGroupVersionKind_loop xs acc =
     acc @ List.map_filter spec_decodeEntry (filter (\<lambda>x. \<not> isStringKeyed x) xs)"
proof (induction xs arbitrary: acc)
  case Nil
  show ?case by (simp add: map_filter_simps)
next
  case (Cons x xs)
  show ?case
    unfolding parseGroupVersionKind_loop_step Cons.IH
    by (simp add: map_filter_simps split: option.splits)
qed

lemma parseGroupVersionKind_slice:
  "GetExtensions s groupVersionKindExtensionKey = Some (ISlice xs) \<Longrightarrow>
   parseGroupVersionKind s =
     List.map_filter spec_decodeEntry (filter (\<lambda>x. \<not> isStringKeyed x) xs)"
  by (simp add: parseGroupVersionKind_def parseGroupVersionKind_loop_map_filter)

lemma spec_decodeEntry_SomeD:
  "spec_decodeEntry x = Some g \<Longrightarrow> \<not> isStringKeyed x \<Longrightarrow>
   \<exists>m. x = IMapII m \<and> map_of m (IString ''group'') = Some (IString (Group g)) \<and>
       map_of m (IString ''version'') = Some (IString (Version g)) \<and>
       map_of m (IString ''kind'') = Some (IString (Kind g))"
  by (cases x)
     (auto simp: spec_decodeEntry_def spec_asMapping_def spec_stringField_def
        split: option.splits iface.splits)

lemma parseGroupVersionKind_memberD:
  assumes "g \<in> set (parseGroupVersionKind s)"
  shows "\<exists>xs m. GetExtensions s groupVersionKindExtensionKey = Some (ISlice xs) \<and>
           IMapII m \<in> set xs \<and>
           map_of m (IString ''group'') = Some (IString (Group g)) \<and>
           map_of m (IString ''version'') = Some (IString (Version g)) \<and>
           map_of m (IString ''kind'') = Some (IString (Kind g))"
proof -
  have "\<exists>xs. GetExtensions s groupVersionKindExtensionKey = Some (ISlice xs)"
  proof (cases "GetExtensions s groupVersionKindExtensionKey")
    case None
    with assms show ?thesis by (simp add: parseGroupVersionKind_def)
  next
    case (Some v)
    with assms show ?thesis by (cases v) (simp_all add: parseGroupVersionKind_def)
  qed
  then obtain xs where
    xs: "GetExtensions s groupVersionKindExtensionKey = Some (ISlice xs)"
    by blast
  with assms have "g \<in> set (List.map_filter spec_decodeEntry
      (filter (\<lambda>x. \<not> isStringKeyed x) xs))"
    by (simp add: parseGroupVersionKind_slice)
  then obtain x where "x \<in> set xs" "\<not> isStringKeyed x" "spec_decodeEntry x = Some g"
    by (auto simp: map_filter_def)
  with xs show ?thesis
    by (blast dest: spec_decodeEntry_SomeD)
qed

lemma makeRawExtensionUntyped_loop_map:
  "makeRawExtensionUntyped_loop u ts acc =
     acc @ map (\<lambda>t. if Name t = rawExtensionName then t\<lparr>Atom := u\<rparr> else t) ts"
  by (induction ts arbitrary: acc) (simp_all add: Let_def)

lemma Types_makeRawExtensionUntyped:
  "Types (makeRawExtensionUntyped u s) =
     map (\<lambda>t. if Name t = rawExtensionName then t\<lparr>Atom := u\<rparr> else t) (Types s)"
  by (simp add: makeRawExtensionUntyped_def makeRawExtensionUntyped_loop_map)

lemma newGVKParser_gvkLoop_apply:
  "newGVKParser_gvkLoop idx n gs g =
     (if g \<in> set gs \<and> Kind g \<noteq> [] then Some n else idx g)"
  by (induction gs arbitrary: idx) auto

lemma newGVKParser_modelLoop_append:
  "newGVKParser_modelLoop models idx (xs @ ys) =
     (case newGVKParser_modelLoop models idx xs of
        Panic msg \<Rightarrow> Panic msg
      | Return idx' \<Rightarrow> newGVKParser_modelLoop models idx' ys)"
  by (induction xs arbitrary: idx) (simp_all split: option.splits)



lemma newGVKParser_modelLoop_Cons_Return:
  assumes "newGVKParser_modelLoop models idx (n # ns) = Return idx'"
  obtains m where "LookupModel models n = Some m"
    and "newGVKParser_modelLoop models
           (newGVKParser_gvkLoop idx n (parseGroupVersionKind m)) ns = Return idx'"
  using assms by (auto split: option.splits)

lemma newGVKParser_modelLoop_untouched:
  "newGVKParser_modelLoop models idx ns = Return idx' \<Longrightarrow>
   (\<forall>n \<in> set ns. \<forall>m. LookupModel models n = Some m \<longrightarrow>
      g \<notin> set (parseGroupVersionKind m) \<or> Kind g = []) \<Longrightarrow>
   idx' g = idx g"
proof (induction ns arbitrary: idx)
  case Nil
  then show ?case by simp
next
  case (Cons n ns)
  from Cons.prems(1) obtain m where m: "LookupModel models n = Some m"
    and rest: "newGVKParser_modelLoop models
      (newGVKParser_gvkLoop idx n (parseGroupVersionKind m)) ns = Return idx'"
    by (rule newGVKParser_modelLoop_Cons_Return)
  from Cons.prems(2) have later: "\<forall>n \<in> set ns. \<forall>m. LookupModel models n = Some m \<longrightarrow>
      g \<notin> set (parseGroupVersionKind m) \<or> Kind g = []"
    by simp
  from Cons.prems(2) m have here: "g \<notin> set (parseGroupVersionKind m) \<or> Kind g = []"
    by simp
  have "idx' g = newGVKParser_gvkLoop idx n (parseGroupVersionKind m) g"
    using Cons.IH [OF rest later] .
  also have "\<dots> = idx g"
    using here by (auto simp: newGVKParser_gvkLoop_apply)
  finally show ?case .
qed

lemma newGVKParser_modelLoop_origin:
  "newGVKParser_modelLoop models idx ns = Return idx' \<Longrightarrow> idx' g = Some n \<Longrightarrow>
   idx g = Some n \<or>
   (n \<in> set ns \<and>
    (\<exists>m. LookupModel models n = Some m \<and> g \<in> set (parseGroupVersionKind m) \<and> Kind g \<noteq> []))"
proof (induction ns arbitrary: idx)
  case Nil
  then show ?case by simp
next
  case (Cons a ns)
  from Cons.prems(1) obtain m where m: "LookupModel models a = Some m"
    and rest: "newGVKParser_modelLoop models
      (newGVKParser_gvkLoop idx a (parseGroupVersionKind m)) ns = Return idx'"
    by (rule newGVKParser_modelLoop_Cons_Return)
  from Cons.IH [OF rest Cons.prems(2)] m show ?case
    by (auto simp: newGVKParser_gvkLoop_apply split: if_splits)
qed

lemma newGVKParser_modelLoop_keeps:
  "newGVKParser_modelLoop models idx ns = Return idx' \<Longrightarrow> idx g \<noteq> None \<Longrightarrow>
   idx' g \<noteq> None"
proof (induction ns arbitrary: idx)
  case Nil
  then show ?case by simp
next
  case (Cons a ns)
  from Cons.prems(1) obtain m where m: "LookupModel models a = Some m"
    and rest: "newGVKParser_modelLoop models
      (newGVKParser_gvkLoop idx a (parseGroupVersionKind m)) ns = Return idx'"
    by (rule newGVKParser_modelLoop_Cons_Return)
  from Cons.prems(2) have "newGVKParser_gvkLoop idx a (parseGroupVersionKind m) g \<noteq> None"
    by (simp add: newGVKParser_gvkLoop_apply)
  with Cons.IH [OF rest] show ?case .
qed

lemma newGVKParser_built:
  "newGVKParser ToSchema untyped models = Return (Inr p) \<longleftrightarrow>
     (\<exists>ts. ToSchema models = Return (Inr ts) \<and>
        newGVKParser_modelLoop models Map.empty (ListModels models) = Return (gvks p) \<and>
        parser p = \<lparr>Schema = makeRawExtensionUntyped untyped ts\<rparr>)"
  by (cases p) (auto simp: newGVKParser_def Let_def split: sum.splits outcome.splits)

subsection \<open>The example catalog, evaluated\<close>

lemmas ex_entry_defs = ex_entry_deployment_def ex_entry_no_kind_def ex_entry_int_version_def
  ex_entry_empty_kind_def ex_entry_string_keyed_def

lemma parse_ex_model_a: "parseGroupVersionKind ex_model_a = [deploymentGVK, emptyKindGVK]"
  by (simp add: parseGroupVersionKind_def ex_model_a_def ex_entry_defs mapIndex_def
      deploymentGVK_def emptyKindGVK_def)

lemma parse_ex_model_b: "parseGroupVersionKind ex_model_b = [deploymentGVK]"
  by (simp add: parseGroupVersionKind_def ex_model_b_def ex_entry_defs mapIndex_def
      deploymentGVK_def)

lemma parse_ex_model_plain: "parseGroupVersionKind ex_model_plain = []"
  by (simp add: parseGroupVersionKind_def ex_model_plain_def groupVersionKindExtensionKey_def)

lemma ex_catalog_loop:
  "newGVKParser_modelLoop ex_catalog Map.empty (ListModels ex_catalog) =
     Return [deploymentGVK \<mapsto> ''b'']"
  by (simp add: ex_catalog_def parse_ex_model_a parse_ex_model_b parse_ex_model_plain
      deploymentGVK_def emptyKindGVK_def)

lemma ex_catalog_built:
  "newGVKParser ex_ToSchema ''untyped'' ex_catalog = Return (Inr ex_parser)"
  by (simp add: newGVKParser_def ex_ToSchema_def ex_catalog_loop ex_parser_def)

section \<open>The claims\<close>

subsection \<open>Lookup\<close>

text \<open>
  C1. For a GVK that is not in the index, \<open>Type\<close> returns \<^verbatim>\<open>nil\<close> (\<open>None\<close>), which is
  not an error; for a GVK the index maps to the model name \<open>n\<close>, it returns what the
  bound parser gives for \<open>n\<close>. The parser a constructed \<open>gvkParser\<close> is bound to holds
  the patched schema, \<open>makeRawExtensionUntyped\<close> of the converter's result.
\<close>

theorem Type_lookup:
  "(gvks p gvk = None \<longrightarrow> Type parserType p gvk = None) \<and>
   (\<forall>n. gvks p gvk = Some n \<longrightarrow> Type parserType p gvk = Some (parserType (parser p) n)) \<and>
   (\<forall>ts q. ToSchema models = Return (Inr ts) \<longrightarrow>
      newGVKParser ToSchema untyped models = Return (Inr q) \<longrightarrow>
      parser q = \<lparr>Schema = makeRawExtensionUntyped untyped ts\<rparr>)"
  by (auto simp: Type_def newGVKParser_built)

theorem Type_lookup_witness:
  "gvks ex_parser statefulSetGVK = None \<and>
   Type ex_parserType ex_parser statefulSetGVK = None \<and>
   gvks ex_parser deploymentGVK = Some ''b'' \<and>
   Type ex_parserType ex_parser deploymentGVK =
     Some (ex_parserType \<lparr>Schema = makeRawExtensionUntyped ''untyped'' ex_schema\<rparr> ''b'') \<and>
   ex_ToSchema ex_catalog = Return (Inr ex_schema) \<and>
   newGVKParser ex_ToSchema ''untyped'' ex_catalog = Return (Inr ex_parser) \<and>
   parser ex_parser = \<lparr>Schema = makeRawExtensionUntyped ''untyped'' ex_schema\<rparr>"
proof -
  have absent: "gvks ex_parser statefulSetGVK = None"
    by (simp add: ex_parser_def deploymentGVK_def statefulSetGVK_def)
  have present: "gvks ex_parser deploymentGVK = Some ''b''"
    by (simp add: ex_parser_def)
  have conv: "ex_ToSchema ex_catalog = Return (Inr ex_schema)"
    by (simp add: ex_ToSchema_def)
  have bound: "parser ex_parser = \<lparr>Schema = makeRawExtensionUntyped ''untyped'' ex_schema\<rparr>"
    by (simp add: ex_parser_def)
  from absent present conv bound ex_catalog_built
    Type_lookup [of ex_parser statefulSetGVK ex_parserType ex_ToSchema ex_catalog "''untyped''"]
    Type_lookup [of ex_parser deploymentGVK ex_parserType ex_ToSchema ex_catalog "''untyped''"]
  show ?thesis by simp
qed

subsection \<open>Conversion failure\<close>

text \<open>
  C2. When the converter \<open>ToSchema\<close> fails on the catalog, \<open>newGVKParser\<close> returns no
  parser and the converter's error wrapped with its context; and an error is returned in
  no other case. The error result carries no \<open>gvkParser\<close>, so no index, partial or
  not, reaches the caller.
\<close>

theorem newGVKParser_conversion_error:
  "(ToSchema models = Return (Inl err) \<longrightarrow>
      newGVKParser ToSchema untyped models =
        Return (Inl (''failed to convert models to schema: '' @ err))) \<and>
   (newGVKParser ToSchema untyped models = Return (Inl e) \<longrightarrow>
      (\<exists>err'. ToSchema models = Return (Inl err') \<and>
         e = ''failed to convert models to schema: '' @ err'))"
  by (auto simp: newGVKParser_def Let_def split: sum.splits outcome.splits)

theorem newGVKParser_conversion_error_witness:
  "ex_failing_ToSchema ex_catalog = Return (Inl ''boom'') \<and>
   newGVKParser ex_failing_ToSchema ''untyped'' ex_catalog =
     Return (Inl ''failed to convert models to schema: boom'')"
proof -
  have fails: "ex_failing_ToSchema ex_catalog = Return (Inl ''boom'')"
    by (simp add: ex_failing_ToSchema_def)
  from fails newGVKParser_conversion_error
    [of ex_failing_ToSchema ex_catalog "''boom''" "''untyped''"
        "''failed to convert models to schema: boom''"]
  show ?thesis by simp
qed

subsection \<open>The schema patcher\<close>

text \<open>
  C3. The patched schema has as many type entries as the input, in the same order: at
  every position, an entry named \<^verbatim>\<open>io.k8s.apimachinery.pkg.runtime.RawExtension\<close> is the
  input's entry with its \<open>Atom\<close> replaced by the untyped atom (its name kept), and any
  other entry is the input's entry, unchanged.
\<close>

theorem makeRawExtensionUntyped_entries:
  "length (Types (makeRawExtensionUntyped untyped s)) = length (Types s) \<and>
   (\<forall>i < length (Types s).
      Types (makeRawExtensionUntyped untyped s) ! i =
        (if Name (Types s ! i) = ''io.k8s.apimachinery.pkg.runtime.RawExtension''
         then (Types s ! i)\<lparr>Atom := untyped\<rparr>
         else Types s ! i))"
  by (simp add: Types_makeRawExtensionUntyped rawExtensionName_def)

theorem makeRawExtensionUntyped_entries_witness:
  "(1::nat) < length (Types ex_schema) \<and>
   Types (makeRawExtensionUntyped ''untyped'' ex_schema) ! 1 =
     \<lparr>Name = ''io.k8s.apimachinery.pkg.runtime.RawExtension'', Atom = ''untyped''\<rparr> \<and>
   (2::nat) < length (Types ex_schema) \<and>
   Types (makeRawExtensionUntyped ''untyped'' ex_schema) ! 2 = \<lparr>Name = ''b'', Atom = ''list''\<rparr>"
proof -
  have one: "(1::nat) < length (Types ex_schema)" and two: "(2::nat) < length (Types ex_schema)"
    by (simp_all add: ex_schema_def)
  have e1: "Types ex_schema ! 1 = \<lparr>Name = rawExtensionName, Atom = ''map''\<rparr>"
    by (simp add: ex_schema_def)
  have e2: "Types ex_schema ! 2 = \<lparr>Name = ''b'', Atom = ''list''\<rparr>"
    by (simp add: ex_schema_def numeral_2_eq_2)
  note entries = makeRawExtensionUntyped_entries [of "''untyped''" ex_schema]
  from entries one have "Types (makeRawExtensionUntyped ''untyped'' ex_schema) ! 1 =
      (if Name (Types ex_schema ! 1) = ''io.k8s.apimachinery.pkg.runtime.RawExtension''
       then (Types ex_schema ! 1)\<lparr>Atom := ''untyped''\<rparr> else Types ex_schema ! 1)"
    by blast
  then have r1: "Types (makeRawExtensionUntyped ''untyped'' ex_schema) ! 1 =
      \<lparr>Name = ''io.k8s.apimachinery.pkg.runtime.RawExtension'', Atom = ''untyped''\<rparr>"
    unfolding e1 by (simp add: rawExtensionName_def)
  from entries two have "Types (makeRawExtensionUntyped ''untyped'' ex_schema) ! 2 =
      (if Name (Types ex_schema ! 2) = ''io.k8s.apimachinery.pkg.runtime.RawExtension''
       then (Types ex_schema ! 2)\<lparr>Atom := ''untyped''\<rparr> else Types ex_schema ! 2)"
    by blast
  then have r2: "Types (makeRawExtensionUntyped ''untyped'' ex_schema) ! 2 =
      \<lparr>Name = ''b'', Atom = ''list''\<rparr>"
    unfolding e2 by simp
  from one two r1 r2 show ?thesis by blast
qed

text \<open>
  C9. On a schema with no type entry named
  \<^verbatim>\<open>io.k8s.apimachinery.pkg.runtime.RawExtension\<close> the patcher is the identity: the
  schema it returns equals its input.
\<close>

theorem makeRawExtensionUntyped_identity:
  "(\<forall>t \<in> set (Types s). Name t \<noteq> ''io.k8s.apimachinery.pkg.runtime.RawExtension'') \<Longrightarrow>
   makeRawExtensionUntyped untyped s = s"
  by (cases s) (simp add: makeRawExtensionUntyped_def makeRawExtensionUntyped_loop_map
      rawExtensionName_def map_idI)

theorem makeRawExtensionUntyped_identity_witness:
  "\<not> (\<exists>t \<in> set (Types ex_schema_plain).
        Name t = ''io.k8s.apimachinery.pkg.runtime.RawExtension'') \<and>
   makeRawExtensionUntyped ''untyped'' ex_schema_plain = ex_schema_plain"
proof -
  have h: "\<forall>t \<in> set (Types ex_schema_plain).
      Name t \<noteq> ''io.k8s.apimachinery.pkg.runtime.RawExtension''"
    by (simp add: ex_schema_plain_def)
  from h makeRawExtensionUntyped_identity [OF h, of "''untyped''"] show ?thesis by simp
qed

subsection \<open>The extension extractor\<close>

text \<open>
  C4, as stated, fails on an element that is a mapping with string keys in the form
  \<^verbatim>\<open>map[string]interface{}\<close>. The first element of the list below is one, with group,
  version and kind all strings: it is a mapping, well-formed in the words of the
  specification, and decodes to a triple there; the extractor asserts
  \<^verbatim>\<open>map[interface{}]interface{}\<close> (line 93) and leaves it out.
\<close>

theorem parseGroupVersionKind_string_keyed_counterexample:
  "GetExtensions ex_model_b ''x-kubernetes-group-version-kind'' =
     Some (ISlice [ex_entry_string_keyed, ex_entry_deployment]) \<and>
   spec_decodeEntry ex_entry_string_keyed = Some statefulSetGVK \<and>
   List.map_filter spec_decodeEntry [ex_entry_string_keyed, ex_entry_deployment] =
     [statefulSetGVK, deploymentGVK] \<and>
   parseGroupVersionKind ex_model_b = [deploymentGVK] \<and>
   parseGroupVersionKind ex_model_b \<noteq>
     List.map_filter spec_decodeEntry [ex_entry_string_keyed, ex_entry_deployment]"
proof -
  have d: "spec_decodeEntry ex_entry_string_keyed = Some statefulSetGVK"
      "spec_decodeEntry ex_entry_deployment = Some deploymentGVK"
    by (simp_all add: spec_decodeEntry_def spec_asMapping_def spec_stringField_def
        ex_entry_defs statefulSetGVK_def deploymentGVK_def)
  have l: "GetExtensions ex_model_b ''x-kubernetes-group-version-kind'' =
      Some (ISlice [ex_entry_string_keyed, ex_entry_deployment])"
    by (simp add: ex_model_b_def groupVersionKindExtensionKey_def)
  have ne: "[deploymentGVK] \<noteq> [statefulSetGVK, deploymentGVK]"
    by simp
  from d l ne parse_ex_model_b show ?thesis
    by (simp add: map_filter_simps)
qed

text \<open>
  C4, amended. When the extensions hold a sequence under the GVK-list key,
  \<open>parseGroupVersionKind\<close> returns exactly the triples of the elements that decode, in
  the order of the sequence, where a \<^verbatim>\<open>map[string]interface{}\<close> element never decodes:
  such an element, an element that is not a mapping, and a mapping whose group, version
  or kind is missing or not a string contribute nothing, and every other element (an
  interface-keyed mapping with the three string fields) contributes its triple, whatever
  stands around it.
\<close>

theorem parseGroupVersionKind_decoded_in_order:
  assumes "GetExtensions s ''x-kubernetes-group-version-kind'' = Some (ISlice xs)"
  shows "parseGroupVersionKind s =
           List.map_filter spec_decodeEntry (filter (\<lambda>x. \<not> isStringKeyed x) xs)"
  using assms by (simp add: parseGroupVersionKind_slice groupVersionKindExtensionKey_def)

theorem parseGroupVersionKind_decoded_in_order_witness:
  "GetExtensions ex_model_a ''x-kubernetes-group-version-kind'' =
     Some (ISlice [IString ''junk'', ex_entry_no_kind, ex_entry_deployment,
                   ex_entry_int_version, ex_entry_empty_kind]) \<and>
   spec_decodeEntry (IString ''junk'') = None \<and>
   spec_decodeEntry ex_entry_no_kind = None \<and>
   spec_decodeEntry ex_entry_int_version = None \<and>
   parseGroupVersionKind ex_model_a = [deploymentGVK, emptyKindGVK] \<and>
   GetExtensions ex_model_b ''x-kubernetes-group-version-kind'' =
     Some (ISlice [ex_entry_string_keyed, ex_entry_deployment]) \<and>
   isStringKeyed ex_entry_string_keyed \<and>
   parseGroupVersionKind ex_model_b = [deploymentGVK]"
proof -
  have a: "GetExtensions ex_model_a ''x-kubernetes-group-version-kind'' =
     Some (ISlice [IString ''junk'', ex_entry_no_kind, ex_entry_deployment,
                   ex_entry_int_version, ex_entry_empty_kind])"
    by (simp add: ex_model_a_def groupVersionKindExtensionKey_def)
  have b: "GetExtensions ex_model_b ''x-kubernetes-group-version-kind'' =
      Some (ISlice [ex_entry_string_keyed, ex_entry_deployment])"
    by (simp add: ex_model_b_def groupVersionKindExtensionKey_def)
  have d: "spec_decodeEntry (IString ''junk'') = None"
      "spec_decodeEntry ex_entry_no_kind = None"
      "spec_decodeEntry ex_entry_int_version = None"
      "spec_decodeEntry ex_entry_deployment = Some deploymentGVK"
      "spec_decodeEntry ex_entry_empty_kind = Some emptyKindGVK"
    by (simp_all add: spec_decodeEntry_def spec_asMapping_def spec_stringField_def
        ex_entry_defs deploymentGVK_def emptyKindGVK_def)
  have k: "isStringKeyed ex_entry_string_keyed" "\<not> isStringKeyed (IString ''junk'')"
      "\<not> isStringKeyed ex_entry_no_kind" "\<not> isStringKeyed ex_entry_deployment"
      "\<not> isStringKeyed ex_entry_int_version" "\<not> isStringKeyed ex_entry_empty_kind"
    by (simp_all add: ex_entry_defs)
  from a b d k parseGroupVersionKind_decoded_in_order [OF a]
    parseGroupVersionKind_decoded_in_order [OF b]
  show ?thesis
    by (simp add: map_filter_simps)
qed

text \<open>
  C5. When the GVK-list key is absent from the extensions, or present with a value that
  is not a sequence, \<open>parseGroupVersionKind\<close> returns the empty sequence; it has no
  error result and no panic.
\<close>

theorem parseGroupVersionKind_no_list:
  "(GetExtensions s ''x-kubernetes-group-version-kind'' = None \<longrightarrow>
      parseGroupVersionKind s = []) \<and>
   (\<forall>v. GetExtensions s ''x-kubernetes-group-version-kind'' = Some v \<longrightarrow>
      (\<forall>xs. v \<noteq> ISlice xs) \<longrightarrow> parseGroupVersionKind s = [])"
proof -
  have "assertSlice v = None" if "\<forall>xs. v \<noteq> ISlice xs" for v
    using that by (cases v) simp_all
  then show ?thesis
    by (simp add: parseGroupVersionKind_def groupVersionKindExtensionKey_def)
qed

theorem parseGroupVersionKind_no_list_witness:
  "GetExtensions ex_model_plain ''x-kubernetes-group-version-kind'' = None \<and>
   parseGroupVersionKind ex_model_plain = [] \<and>
   GetExtensions ex_model_scalar ''x-kubernetes-group-version-kind'' = Some ex_entry_deployment \<and>
   parseGroupVersionKind ex_model_scalar = []"
proof -
  have a: "GetExtensions ex_model_plain ''x-kubernetes-group-version-kind'' = None"
    by (simp add: ex_model_plain_def)
  have b: "GetExtensions ex_model_scalar ''x-kubernetes-group-version-kind'' =
      Some ex_entry_deployment"
    by (simp add: ex_model_scalar_def groupVersionKindExtensionKey_def)
  have c: "\<forall>xs. ex_entry_deployment \<noteq> ISlice xs"
    by (simp add: ex_entry_deployment_def)
  from a b c parseGroupVersionKind_no_list [of ex_model_plain]
    parseGroupVersionKind_no_list [of ex_model_scalar]
  show ?thesis by blast
qed

subsection \<open>Building the index\<close>

text \<open>
  C6. During construction, for a GVK that \<open>parseGroupVersionKind\<close> returns for a model
  of the catalog: when its kind is not empty, the index maps it to the model's name once
  the model has been processed (and the finished index still has an entry for it); a
  GVK whose kind is the empty string gets no entry in the index.
\<close>

theorem newGVKParser_indexes_nonempty_kinds:
  assumes built: "newGVKParser ToSchema untyped models = Return (Inr p)"
  shows "(Kind gvk = [] \<longrightarrow> gvks p gvk = None) \<and>
         (ListModels models = pre @ modelName # post \<longrightarrow>
          LookupModel models modelName = Some model \<longrightarrow>
          gvk \<in> set (parseGroupVersionKind model) \<longrightarrow> Kind gvk \<noteq> [] \<longrightarrow>
            (\<exists>idx. newGVKParser_modelLoop models Map.empty (pre @ [modelName]) = Return idx \<and>
                   idx gvk = Some modelName \<and>
                   newGVKParser_modelLoop models idx post = Return (gvks p)) \<and>
            gvks p gvk \<noteq> None)"
proof (intro conjI impI)
  from built have loop:
    "newGVKParser_modelLoop models Map.empty (ListModels models) = Return (gvks p)"
    by (auto simp: newGVKParser_built)
  {
    assume "Kind gvk = []"
    with newGVKParser_modelLoop_untouched [OF loop, of gvk]
    show "gvks p gvk = None" by simp
  }
  assume order: "ListModels models = pre @ modelName # post"
    and model: "LookupModel models modelName = Some model"
    and declared: "gvk \<in> set (parseGroupVersionKind model)"
    and kind: "Kind gvk \<noteq> []"
  from loop order have
    "newGVKParser_modelLoop models Map.empty ((pre @ [modelName]) @ post) = Return (gvks p)"
    by simp
  then obtain idx where
    first: "newGVKParser_modelLoop models Map.empty (pre @ [modelName]) = Return idx" and
    rest: "newGVKParser_modelLoop models idx post = Return (gvks p)"
    unfolding newGVKParser_modelLoop_append [of models Map.empty "pre @ [modelName]" post]
    by (auto split: outcome.splits)
  from first obtain idx0 where
    "newGVKParser_modelLoop models Map.empty pre = Return idx0" and
    "newGVKParser_modelLoop models idx0 [modelName] = Return idx"
    unfolding newGVKParser_modelLoop_append [of models Map.empty pre "[modelName]"]
    by (auto split: outcome.splits)
  with model declared kind have bound: "idx gvk = Some modelName"
    by (auto simp: newGVKParser_gvkLoop_apply)
  with first rest
  show "\<exists>idx. newGVKParser_modelLoop models Map.empty (pre @ [modelName]) = Return idx \<and>
          idx gvk = Some modelName \<and>
          newGVKParser_modelLoop models idx post = Return (gvks p)"
    by blast
  from bound newGVKParser_modelLoop_keeps [OF rest, of gvk]
  show "gvks p gvk \<noteq> None" by simp
qed

theorem newGVKParser_indexes_nonempty_kinds_witness:
  "newGVKParser ex_ToSchema ''untyped'' ex_catalog = Return (Inr ex_parser) \<and>
   Kind emptyKindGVK = [] \<and> emptyKindGVK \<in> set (parseGroupVersionKind ex_model_a) \<and>
   gvks ex_parser emptyKindGVK = None \<and>
   ListModels ex_catalog = [] @ ''a'' # [''b'', ''c''] \<and>
   LookupModel ex_catalog ''a'' = Some ex_model_a \<and>
   deploymentGVK \<in> set (parseGroupVersionKind ex_model_a) \<and> Kind deploymentGVK \<noteq> [] \<and>
   newGVKParser_modelLoop ex_catalog Map.empty ([] @ [''a'']) =
     Return [deploymentGVK \<mapsto> ''a''] \<and>
   gvks ex_parser deploymentGVK \<noteq> None"
proof -
  have h: "Kind emptyKindGVK = []" "emptyKindGVK \<in> set (parseGroupVersionKind ex_model_a)"
      "ListModels ex_catalog = [] @ ''a'' # [''b'', ''c'']"
      "LookupModel ex_catalog ''a'' = Some ex_model_a"
      "deploymentGVK \<in> set (parseGroupVersionKind ex_model_a)" "Kind deploymentGVK \<noteq> []"
    by (simp_all add: parse_ex_model_a ex_catalog_def emptyKindGVK_def deploymentGVK_def)
  have step: "newGVKParser_modelLoop ex_catalog Map.empty ([] @ [''a'']) =
      Return [deploymentGVK \<mapsto> ''a'']"
    by (simp add: ex_catalog_def parse_ex_model_a deploymentGVK_def emptyKindGVK_def)
  from h step ex_catalog_built
    newGVKParser_indexes_nonempty_kinds [OF ex_catalog_built, of emptyKindGVK]
    newGVKParser_indexes_nonempty_kinds [OF ex_catalog_built, of deploymentGVK "[]" "''a''"
      "[''b'', ''c'']" ex_model_a]
  show ?thesis by blast
qed

text \<open>
  C7. When several models of the catalog declare the same GVK with a non-empty kind,
  the constructed index binds the GVK to one name, that of the declaring model that
  comes last in the order of \<open>ListModels\<close>, and \<open>Type\<close> on that GVK returns the
  parser's type for that name (it has no error result). The models before it may
  declare the GVK or not; none after it does.
\<close>

theorem newGVKParser_last_model_wins:
  assumes built: "newGVKParser ToSchema untyped models = Return (Inr p)"
    and order: "ListModels models = pre @ modelName # post"
    and model: "LookupModel models modelName = Some model"
    and declared: "gvk \<in> set (parseGroupVersionKind model)"
    and kind: "Kind gvk \<noteq> []"
    and last: "\<forall>n \<in> set post. \<forall>m. LookupModel models n = Some m \<longrightarrow>
                 gvk \<notin> set (parseGroupVersionKind m)"
  shows "gvks p gvk = Some modelName \<and>
         Type parserType p gvk = Some (parserType (parser p) modelName)"
proof -
  from built have loop:
    "newGVKParser_modelLoop models Map.empty (ListModels models) = Return (gvks p)"
    by (auto simp: newGVKParser_built)
  with order have
    "newGVKParser_modelLoop models Map.empty (pre @ [modelName] @ post) = Return (gvks p)"
    by simp
  then obtain idx0 where
    "newGVKParser_modelLoop models Map.empty pre = Return idx0" and
    "newGVKParser_modelLoop models idx0 ([modelName] @ post) = Return (gvks p)"
    unfolding newGVKParser_modelLoop_append [of models Map.empty pre "[modelName] @ post"]
    by (auto split: outcome.splits)
  with model have rest: "newGVKParser_modelLoop models
      (newGVKParser_gvkLoop idx0 modelName (parseGroupVersionKind model)) post =
        Return (gvks p)"
    by simp
  from last have "\<forall>n \<in> set post. \<forall>m. LookupModel models n = Some m \<longrightarrow>
      gvk \<notin> set (parseGroupVersionKind m) \<or> Kind gvk = []"
    by blast
  from newGVKParser_modelLoop_untouched [OF rest this] declared kind
  have "gvks p gvk = Some modelName"
    by (simp add: newGVKParser_gvkLoop_apply)
  then show ?thesis by (simp add: Type_def)
qed

theorem newGVKParser_last_model_wins_witness:
  "newGVKParser ex_ToSchema ''untyped'' ex_catalog = Return (Inr ex_parser) \<and>
   ListModels ex_catalog = [''a''] @ ''b'' # [''c''] \<and>
   LookupModel ex_catalog ''a'' = Some ex_model_a \<and>
   deploymentGVK \<in> set (parseGroupVersionKind ex_model_a) \<and>
   LookupModel ex_catalog ''b'' = Some ex_model_b \<and>
   deploymentGVK \<in> set (parseGroupVersionKind ex_model_b) \<and>
   Kind deploymentGVK \<noteq> [] \<and>
   LookupModel ex_catalog ''c'' = Some ex_model_plain \<and>
   deploymentGVK \<notin> set (parseGroupVersionKind ex_model_plain) \<and>
   gvks ex_parser deploymentGVK = Some ''b'' \<and>
   Type ex_parserType ex_parser deploymentGVK = Some (ex_parserType (parser ex_parser) ''b'')"
proof -
  have order: "ListModels ex_catalog = [''a''] @ ''b'' # [''c'']"
    by (simp add: ex_catalog_def)
  have a: "LookupModel ex_catalog ''a'' = Some ex_model_a"
      "deploymentGVK \<in> set (parseGroupVersionKind ex_model_a)"
    by (simp_all add: ex_catalog_def parse_ex_model_a)
  have b: "LookupModel ex_catalog ''b'' = Some ex_model_b"
    by (simp add: ex_catalog_def)
  have c: "LookupModel ex_catalog ''c'' = Some ex_model_plain"
      "deploymentGVK \<notin> set (parseGroupVersionKind ex_model_plain)"
    by (simp_all add: ex_catalog_def parse_ex_model_plain)
  have declared: "deploymentGVK \<in> set (parseGroupVersionKind ex_model_b)"
    by (simp add: parse_ex_model_b)
  have kind: "Kind deploymentGVK \<noteq> []"
    by (simp add: deploymentGVK_def)
  from c have last: "\<forall>n \<in> set [''c'']. \<forall>m. LookupModel ex_catalog n = Some m \<longrightarrow>
      deploymentGVK \<notin> set (parseGroupVersionKind m)"
    by simp
  from ex_catalog_built order a b c declared kind
    newGVKParser_last_model_wins [OF ex_catalog_built order b declared kind last,
      of ex_parserType]
  show ?thesis by blast
qed

subsection \<open>The panic of the constructor\<close>



subsection \<open>String-keyed mappings\<close>

text \<open>
  C10. The extractor decodes an element of the GVK list only when it is a
  \<^verbatim>\<open>map[interface{}]interface{}\<close>. An element that is a \<^verbatim>\<open>map[string]interface{}\<close> is
  skipped whatever it holds: the result is that of the list without it. So every entry
  of a constructed index comes from an interface-keyed mapping, in the GVK list of the
  model the entry names, whose group, version and kind are the strings of the GVK.
\<close>

theorem parseGroupVersionKind_skips_string_keyed:
  "(GetExtensions s ''x-kubernetes-group-version-kind'' = Some (ISlice (xs @ IMapSI kv # ys)) \<longrightarrow>
    GetExtensions s' ''x-kubernetes-group-version-kind'' = Some (ISlice (xs @ ys)) \<longrightarrow>
      parseGroupVersionKind s = parseGroupVersionKind s') \<and>
   (newGVKParser ToSchema untyped models = Return (Inr p) \<longrightarrow> gvks p gvk = Some n \<longrightarrow>
      (\<exists>model es m. n \<in> set (ListModels models) \<and> LookupModel models n = Some model \<and>
         GetExtensions model ''x-kubernetes-group-version-kind'' = Some (ISlice es) \<and>
         IMapII m \<in> set es \<and>
         map_of m (IString ''group'') = Some (IString (Group gvk)) \<and>
         map_of m (IString ''version'') = Some (IString (Version gvk)) \<and>
         map_of m (IString ''kind'') = Some (IString (Kind gvk))))"
proof (intro conjI impI)
  assume "GetExtensions s ''x-kubernetes-group-version-kind'' =
      Some (ISlice (xs @ IMapSI kv # ys))"
    and "GetExtensions s' ''x-kubernetes-group-version-kind'' = Some (ISlice (xs @ ys))"
  then have "parseGroupVersionKind s = List.map_filter spec_decodeEntry
        (filter (\<lambda>x. \<not> isStringKeyed x) (xs @ IMapSI kv # ys))"
    and "parseGroupVersionKind s' = List.map_filter spec_decodeEntry
        (filter (\<lambda>x. \<not> isStringKeyed x) (xs @ ys))"
    by (simp_all add: parseGroupVersionKind_slice groupVersionKindExtensionKey_def)
  then show "parseGroupVersionKind s = parseGroupVersionKind s'"
    by simp
next
  assume "newGVKParser ToSchema untyped models = Return (Inr p)" and entry: "gvks p gvk = Some n"
  then have "newGVKParser_modelLoop models Map.empty (ListModels models) = Return (gvks p)"
    by (auto simp: newGVKParser_built)
  from newGVKParser_modelLoop_origin [OF this entry]
  obtain model where "n \<in> set (ListModels models)" "LookupModel models n = Some model"
    "gvk \<in> set (parseGroupVersionKind model)"
    by auto
  with parseGroupVersionKind_memberD [of gvk model]
  show "\<exists>model es m. n \<in> set (ListModels models) \<and> LookupModel models n = Some model \<and>
         GetExtensions model ''x-kubernetes-group-version-kind'' = Some (ISlice es) \<and>
         IMapII m \<in> set es \<and>
         map_of m (IString ''group'') = Some (IString (Group gvk)) \<and>
         map_of m (IString ''version'') = Some (IString (Version gvk)) \<and>
         map_of m (IString ''kind'') = Some (IString (Kind gvk))"
    unfolding groupVersionKindExtensionKey_def by blast
qed

theorem parseGroupVersionKind_skips_string_keyed_witness:
  "GetExtensions ex_model_b ''x-kubernetes-group-version-kind'' =
     Some (ISlice ([] @ IMapSI [(''group'', IString ''apps''), (''version'', IString ''v1''),
             (''kind'', IString ''StatefulSet'')] # [ex_entry_deployment])) \<and>
   GetExtensions ex_model_b_dropped ''x-kubernetes-group-version-kind'' =
     Some (ISlice ([] @ [ex_entry_deployment])) \<and>
   parseGroupVersionKind ex_model_b = parseGroupVersionKind ex_model_b_dropped \<and>
   parseGroupVersionKind ex_model_b = [deploymentGVK] \<and>
   newGVKParser ex_ToSchema ''untyped'' ex_catalog = Return (Inr ex_parser) \<and>
   gvks ex_parser deploymentGVK = Some ''b'' \<and>
   (\<exists>model es m. ''b'' \<in> set (ListModels ex_catalog) \<and>
      LookupModel ex_catalog ''b'' = Some model \<and>
      GetExtensions model ''x-kubernetes-group-version-kind'' = Some (ISlice es) \<and>
      IMapII m \<in> set es \<and>
      map_of m (IString ''group'') = Some (IString (Group deploymentGVK)) \<and>
      map_of m (IString ''version'') = Some (IString (Version deploymentGVK)) \<and>
      map_of m (IString ''kind'') = Some (IString (Kind deploymentGVK))) \<and>
   gvks ex_parser statefulSetGVK = None"
proof -
  have b: "GetExtensions ex_model_b ''x-kubernetes-group-version-kind'' =
     Some (ISlice ([] @ IMapSI [(''group'', IString ''apps''), (''version'', IString ''v1''),
             (''kind'', IString ''StatefulSet'')] # [ex_entry_deployment]))"
    by (simp add: ex_model_b_def groupVersionKindExtensionKey_def ex_entry_string_keyed_def)
  have b': "GetExtensions ex_model_b_dropped ''x-kubernetes-group-version-kind'' =
     Some (ISlice ([] @ [ex_entry_deployment]))"
    by (simp add: ex_model_b_dropped_def groupVersionKindExtensionKey_def)
  have idx: "gvks ex_parser deploymentGVK = Some ''b''" "gvks ex_parser statefulSetGVK = None"
    by (simp_all add: ex_parser_def deploymentGVK_def statefulSetGVK_def)
  from b b' idx ex_catalog_built parse_ex_model_b
    parseGroupVersionKind_skips_string_keyed [of ex_model_b "[]" _ "[ex_entry_deployment]"
      ex_model_b_dropped ex_ToSchema "''untyped''" ex_catalog ex_parser deploymentGVK "''b''"]
  show ?thesis by blast
qed

end
